theory Spec2Isabelle
  imports Main
begin

section \<open>Data model of \<^verbatim>\<open>src/main.py\<close>\<close>

text \<open>
  Exceptions are values. \<open>HTTPException\<close> is the framework's exception (a subclass of
  Python's \<open>Exception\<close>) with its \<open>status_code\<close> and \<open>detail\<close>; the framework answers
  a raised \<open>HTTPException\<close> with that status. \<open>PyException\<close> stands for every other
  \<open>Exception\<close> (a failure of the platform client, a body that is not JSON, an
  \<open>AttributeError\<close>, a \<open>KeyError\<close>), tagged with a description.
\<close>

datatype exn = HTTPException (status_code: int) (detail: string) | PyException string

text \<open>
  The request models (pydantic \<open>BaseModel\<close>s). Field names carry a prefix because the
  source uses \<open>user_id\<close>, \<open>topic\<close> and \<open>conversation_id\<close> in several structures.
\<close>

record ConversationInput =
  ci_message :: string
  ci_conversation_id :: "string option"
  ci_user_id :: string

record NewSession =
  ns_topic :: string
  ns_difficulty_level :: string
  ns_user_id :: string

text \<open>
  Building a \<open>NewSession\<close> from the fields of a request: \<open>topic\<close> and \<open>user_id\<close> are
  required strings, \<open>difficulty_level\<close> is optional with the default of line 36.
\<close>

definition NewSession_init :: "string \<Rightarrow> string option \<Rightarrow> string \<Rightarrow> NewSession" where
  "NewSession_init topic_field difficulty_field user_field =
     \<lparr>ns_topic = topic_field,
      ns_difficulty_level = (case difficulty_field of None \<Rightarrow> ''beginner'' | Some d \<Rightarrow> d),
      ns_user_id = user_field\<rparr>"

text \<open>
  Building a \<open>ConversationInput\<close>: \<open>conversation_id\<close> is \<open>Optional[str] = None\<close>, so a
  request without the field yields \<open>None\<close>.
\<close>

definition ConversationInput_init :: "string \<Rightarrow> string option \<Rightarrow> string \<Rightarrow> ConversationInput" where
  "ConversationInput_init message_field conversation_field user_field =
     \<lparr>ci_message = message_field,
      ci_conversation_id = conversation_field,
      ci_user_id = user_field\<rparr>"

text \<open>The dictionary stored per conversation in \<open>active_conversations\<close> (lines 70-74).\<close>

record conversation =
  assistant_id :: string
  topic :: string
  user_id :: string

subsection \<open>The external platform client\<close>

text \<open>
  The four calls the handlers make on the \<open>vapi\<close> client, with their keyword
  arguments. \<open>Message_create\<close> has no \<open>content\<close> when the assistant's turn is requested
  (lines 107-110).
\<close>

datatype vapi_request =
    Assistant_create (arg_name: string) (arg_model: string) (arg_instructions: string)
  | Conversation_create (arg_assistant_id: string) (arg_metadata: "(string \<times> string) list")
  | Message_create (arg_conversation_id: string) (arg_role: string) (arg_content: "string option")
  | Conversation_delete string

text \<open>The object a successful call returns; the handlers read \<open>.id\<close> and \<open>.content\<close>.\<close>

record vapi_object =
  obj_id :: string
  obj_content :: string

text \<open>
  The client's code is not part of the repository, so the platform is a parameter: a
  function from the requests it has received so far and the current request to either a
  raised exception or the returned object. Quantifying over it covers every
  deterministic platform, failing or not at any call.
\<close>

type_synonym upstream = "vapi_request list \<Rightarrow> vapi_request \<Rightarrow> exn + vapi_object"

text \<open>
  The state the handlers act on: the module-level dictionary \<open>active_conversations\<close>
  (line 40) and the requests sent to the platform so far, in order. The only \<open>await\<close>
  of the handlers (line 139) comes before the first read of the dictionary and the
  client's calls are synchronous, so a handler runs from its first read of the
  dictionary to its end without another handler in between: a handler is a function
  from the state before to a result and the state after.
\<close>

record state =
  active_conversations :: "string \<rightharpoonup> conversation"
  vapi_log :: "vapi_request list"

definition initial_state :: state where
  "initial_state = \<lparr>active_conversations = Map.empty, vapi_log = []\<rparr>"

definition vapi_call :: "upstream \<Rightarrow> vapi_request \<Rightarrow> state \<Rightarrow> (exn + vapi_object) \<times> state" where
  "vapi_call vapi rq s = (vapi (vapi_log s) rq, s\<lparr>vapi_log := vapi_log s @ [rq]\<rparr>)"

subsection \<open>The bodies of JSON requests\<close>

text \<open>
  A decoded JSON value. The handlers read one key of an object and compare its value
  with a string; numbers are kept as integers, no handler computes with one.
\<close>

datatype json =
    JNull
  | JBool bool
  | JNumber int
  | JString string
  | JArray "json list"
  | JObject "(string \<times> json) list"

text \<open>
  \<open>data.get(key)\<close> on the decoded body: a dictionary answers the value or \<open>None\<close> (of a
  repeated key the decoder keeps the last value); any other decoded value has no \<open>get\<close>
  and raises \<open>AttributeError\<close>.
\<close>

definition data_get :: "json \<Rightarrow> string \<Rightarrow> exn + json option" where
  "data_get data k =
     (case data of
        JObject kvs \<Rightarrow> Inr (map_of (rev kvs) k)
      | _ \<Rightarrow> Inl (PyException ''AttributeError''))"

text \<open>
  \<open>stored != user_id\<close> where \<open>stored\<close> is a string and \<open>user_id\<close> a decoded JSON value
  or \<open>None\<close>: equal only to the same string.
\<close>

definition str_ne :: "string \<Rightarrow> json option \<Rightarrow> bool" where
  "str_ne stored v = (v \<noteq> Some (JString stored))"

section \<open>The handlers\<close>

text \<open>
  Every handler is \<open>try: body except Exception as e: raise HTTPException(500, prefix +
  str(e))\<close>. The clause catches every exception of the body, an \<open>HTTPException\<close> raised
  there included, and keeps whatever the body did to the state before it raised.
  \<open>str\<close> is Python's \<open>str(e)\<close>, whose text for an \<open>HTTPException\<close> is the framework's.
\<close>

definition except_Exception ::
    "(exn \<Rightarrow> string) \<Rightarrow> string \<Rightarrow> (exn + 'a) \<times> state \<Rightarrow> (exn + 'a) \<times> state" where
  "except_Exception str prefix r =
     (case r of
        (Inl e, s) \<Rightarrow> (Inl (HTTPException 500 (prefix @ str e)), s)
      | (Inr v, s) \<Rightarrow> (Inr v, s))"

subsection \<open>\<open>create_assistant\<close> (lines 42-83)\<close>

definition assistant_name :: "NewSession \<Rightarrow> string" where
  "assistant_name session = ''Feynman Learning Assistant - '' @ ns_topic session"

definition assistant_model :: string where
  "assistant_model = ''anthropic/claude-3-opus-20240229''"

definition newline :: string where
  "newline = [CHR 0x0A]"

definition indent :: string where
  "indent = replicate 16 CHR '' ''"

text \<open>
  The f-string of lines 50-60: the text up to \<open>{session.topic}\<close>, the two fields
  joined by \<open>" at a "\<close>, and the text from \<open>" level."\<close> to the closing quotes.
\<close>

definition instructions_head :: string where
  "instructions_head =
     newline @ indent @ ''You are a Feynman Learning Assistant teaching about ''"

definition instructions_tail :: string where
  "instructions_tail =
     '' level.'' @ newline
     @ indent @ ''Your goal is to guide the user through the Feynman technique:'' @ newline
     @ indent @ ''1. Have them explain what they know about the topic'' @ newline
     @ indent @ ''2. Identify gaps in their understanding'' @ newline
     @ indent @ ''3. Help them simplify complex concepts'' @ newline
     @ indent @ ''4. Guide them to teach the concept back to you'' @ newline
     @ indent @ ''5. Provide feedback on their explanations'' @ newline
     @ indent @ newline
     @ indent @ ''Always use simple language and encourage the user to explain concepts in their own words.''
         @ newline
     @ replicate 12 CHR '' ''"

definition assistant_instructions :: "NewSession \<Rightarrow> string" where
  "assistant_instructions session =
     instructions_head @ ns_topic session @ '' at a '' @ ns_difficulty_level session
       @ instructions_tail"

definition assistant_request :: "NewSession \<Rightarrow> vapi_request" where
  "assistant_request session =
     Assistant_create (assistant_name session) assistant_model (assistant_instructions session)"

definition conversation_request :: "vapi_object \<Rightarrow> NewSession \<Rightarrow> vapi_request" where
  "conversation_request assistant session =
     Conversation_create (obj_id assistant)
       [(''user_id'', ns_user_id session), (''topic'', ns_topic session)]"

record create_response =
  r_conversation_id :: string
  r_assistant_id :: string
  r_topic :: string

definition create_assistant_body ::
    "upstream \<Rightarrow> NewSession \<Rightarrow> state \<Rightarrow> (exn + create_response) \<times> state" where
  "create_assistant_body vapi session s =
     (case vapi_call vapi (assistant_request session) s of
        (Inl e, s1) \<Rightarrow> (Inl e, s1)
      | (Inr assistant, s1) \<Rightarrow>
          (case vapi_call vapi (conversation_request assistant session) s1 of
             (Inl e, s2) \<Rightarrow> (Inl e, s2)
           | (Inr conv, s2) \<Rightarrow>
               (Inr \<lparr>r_conversation_id = obj_id conv,
                     r_assistant_id = obj_id assistant,
                     r_topic = ns_topic session\<rparr>,
                s2\<lparr>active_conversations := (active_conversations s2)(obj_id conv \<mapsto>
                     \<lparr>assistant_id = obj_id assistant,
                      topic = ns_topic session,
                      user_id = ns_user_id session\<rparr>)\<rparr>)))"

definition create_assistant ::
    "upstream \<Rightarrow> (exn \<Rightarrow> string) \<Rightarrow> NewSession \<Rightarrow> state \<Rightarrow> (exn + create_response) \<times> state" where
  "create_assistant vapi str session s =
     except_Exception str ''Failed to create assistant: '' (create_assistant_body vapi session s)"

subsection \<open>\<open>send_message\<close> (lines 85-119)\<close>

record message_response =
  m_response :: string
  m_message_id :: string
  m_conversation_id :: string

text \<open>
  \<open>not conversation_input.conversation_id\<close> (line 89) holds for \<open>None\<close> and for the
  empty string.
\<close>

definition send_message_body ::
    "upstream \<Rightarrow> ConversationInput \<Rightarrow> state \<Rightarrow> (exn + message_response) \<times> state" where
  "send_message_body vapi conversation_input s =
     (case ci_conversation_id conversation_input of
        None \<Rightarrow> (Inl (HTTPException 400 ''Conversation ID is required''), s)
      | Some cid \<Rightarrow>
          if cid = []
          then (Inl (HTTPException 400 ''Conversation ID is required''), s)
          else
            (case active_conversations s cid of
               None \<Rightarrow> (Inl (HTTPException 404 ''Conversation not found''), s)
             | Some data \<Rightarrow>
                 if user_id data \<noteq> ci_user_id conversation_input
                 then (Inl (HTTPException 403 ''Unauthorized access to conversation''), s)
                 else
                   (case vapi_call vapi
                           (Message_create cid ''user'' (Some (ci_message conversation_input))) s of
                      (Inl e, s1) \<Rightarrow> (Inl e, s1)
                    | (Inr message, s1) \<Rightarrow>
                        (case vapi_call vapi (Message_create cid ''assistant'' None) s1 of
                           (Inl e, s2) \<Rightarrow> (Inl e, s2)
                         | (Inr response, s2) \<Rightarrow>
                             (Inr \<lparr>m_response = obj_content response,
                                   m_message_id = obj_id response,
                                   m_conversation_id = cid\<rparr>, s2)))))"

definition send_message ::
    "upstream \<Rightarrow> (exn \<Rightarrow> string) \<Rightarrow> ConversationInput \<Rightarrow> state
       \<Rightarrow> (exn + message_response) \<times> state" where
  "send_message vapi str conversation_input s =
     except_Exception str ''Failed to process message: ''
       (send_message_body vapi conversation_input s)"

subsection \<open>\<open>get_user_conversations\<close> (lines 121-133)\<close>

text \<open>The dictionary comprehension of lines 126-129.\<close>

definition user_conversations :: "(string \<rightharpoonup> conversation) \<Rightarrow> string \<Rightarrow> (string \<rightharpoonup> conversation)" where
  "user_conversations convs uid =
     (\<lambda>conv_id. case convs conv_id of
                   None \<Rightarrow> None
                 | Some data \<Rightarrow> if user_id data = uid then Some data else None)"

record list_response =
  conversations :: "string \<rightharpoonup> conversation"

definition get_user_conversations ::
    "(exn \<Rightarrow> string) \<Rightarrow> string \<Rightarrow> state \<Rightarrow> (exn + list_response) \<times> state" where
  "get_user_conversations str uid s =
     except_Exception str ''Failed to get conversations: ''
       (Inr \<lparr>conversations = user_conversations (active_conversations s) uid\<rparr>, s)"

subsection \<open>\<open>delete_conversation\<close> (lines 135-157)\<close>

record delete_response =
  d_status :: string
  d_message :: string

text \<open>\<open>del d[k]\<close> raises \<open>KeyError\<close> for a key that is not there.\<close>

definition dict_del :: "string \<Rightarrow> state \<Rightarrow> (exn + unit) \<times> state" where
  "dict_del k s =
     (case active_conversations s k of
        None \<Rightarrow> (Inl (PyException ''KeyError''), s)
      | Some _ \<Rightarrow> (Inr (), s\<lparr>active_conversations := (active_conversations s)(k := None)\<rparr>))"

text \<open>
  The request is what \<open>await request.json()\<close> yields: \<open>None\<close> when the body is not JSON
  (the call raises), the decoded value otherwise.
\<close>

definition delete_conversation_body ::
    "upstream \<Rightarrow> string \<Rightarrow> json option \<Rightarrow> state \<Rightarrow> (exn + delete_response) \<times> state" where
  "delete_conversation_body vapi conversation_id request s =
     (case request of
        None \<Rightarrow> (Inl (PyException ''JSONDecodeError''), s)
      | Some data \<Rightarrow>
          (case data_get data ''user_id'' of
             Inl e \<Rightarrow> (Inl e, s)
           | Inr uid \<Rightarrow>
               (case active_conversations s conversation_id of
                  None \<Rightarrow> (Inl (HTTPException 404 ''Conversation not found''), s)
                | Some stored \<Rightarrow>
                    if str_ne (user_id stored) uid
                    then (Inl (HTTPException 403 ''Unauthorized access to conversation''), s)
                    else
                      (case vapi_call vapi (Conversation_delete conversation_id) s of
                         (Inl e, s1) \<Rightarrow> (Inl e, s1)
                       | (Inr _, s1) \<Rightarrow>
                           (case dict_del conversation_id s1 of
                              (Inl e, s2) \<Rightarrow> (Inl e, s2)
                            | (Inr _, s2) \<Rightarrow>
                                (Inr \<lparr>d_status = ''success'',
                                      d_message = ''Conversation deleted''\<rparr>, s2))))))"

definition delete_conversation ::
    "upstream \<Rightarrow> (exn \<Rightarrow> string) \<Rightarrow> string \<Rightarrow> json option \<Rightarrow> state
       \<Rightarrow> (exn + delete_response) \<times> state" where
  "delete_conversation vapi str conversation_id request s =
     except_Exception str ''Failed to delete conversation: ''
       (delete_conversation_body vapi conversation_id request s)"

subsection \<open>\<open>health_check\<close> (lines 159-162)\<close>

definition health_check :: "(string \<times> string) list" where
  "health_check = [(''status'', ''healthy'')]"

section \<open>The registry invariant and example platforms\<close>

text \<open>
  The invariant of the data model: every record of the registry has a non-empty owner
  and a non-empty assistant id.
\<close>

definition registry_inv :: "state \<Rightarrow> bool" where
  "registry_inv s =
     (\<forall>cid d. active_conversations s cid = Some d \<longrightarrow> user_id d \<noteq> [] \<and> assistant_id d \<noteq> [])"

text \<open>
  Concrete platforms and a concrete \<open>str\<close> for the examples: a platform that answers
  every call, one that is unreachable, and one that creates assistants but no
  conversations.
\<close>

definition vapi_ok :: upstream where
  "vapi_ok history rq =
     (case rq of
        Assistant_create n m i \<Rightarrow> Inr \<lparr>obj_id = ''a1'', obj_content = ''''\<rparr>
      | Conversation_create a md \<Rightarrow> Inr \<lparr>obj_id = ''c1'', obj_content = ''''\<rparr>
      | Message_create c r ct \<Rightarrow> Inr \<lparr>obj_id = ''m1'', obj_content = ''reply''\<rparr>
      | Conversation_delete c \<Rightarrow> Inr \<lparr>obj_id = c, obj_content = ''''\<rparr>)"

definition vapi_down :: upstream where
  "vapi_down history rq = Inl (PyException ''ConnectionError'')"

definition vapi_no_conversation :: upstream where
  "vapi_no_conversation history rq =
     (case rq of
        Assistant_create n m i \<Rightarrow> Inr \<lparr>obj_id = ''a1'', obj_content = ''''\<rparr>
      | _ \<Rightarrow> Inl (PyException ''ConnectionError''))"

definition str_stub :: "exn \<Rightarrow> string" where
  "str_stub e = (case e of HTTPException c d \<Rightarrow> d | PyException m \<Rightarrow> m)"

text \<open>The state after user \<open>u1\<close> created a session on \<open>vapi_ok\<close>: it holds \<open>c1\<close>.\<close>

definition session_state :: state where
  "session_state =
     snd (create_assistant vapi_ok str_stub (NewSession_init ''Photosynthesis'' None ''u1'')
            initial_state)"

text \<open>The body \<open>{"user_id": "u1"}\<close> of a delete request, and the state after \<open>u1\<close> deleted \<open>c1\<close>.\<close>

definition u1_delete_body :: json where
  "u1_delete_body = JObject [(''user_id'', JString ''u1'')]"

definition deleted_state :: state where
  "deleted_state =
     snd (delete_conversation vapi_ok str_stub ''c1'' (Some u1_delete_body) session_state)"

section \<open>Basic facts\<close>

lemma health_check_status: "map_of health_check ''status'' = Some ''healthy''"
  by (simp add: health_check_def)

lemma session_state_eq:
  "session_state =
     \<lparr>active_conversations =
        [''c1'' \<mapsto> \<lparr>assistant_id = ''a1'', topic = ''Photosynthesis'', user_id = ''u1''\<rparr>],
      vapi_log =
        [assistant_request (NewSession_init ''Photosynthesis'' None ''u1''),
         conversation_request \<lparr>obj_id = ''a1'', obj_content = ''''\<rparr>
           (NewSession_init ''Photosynthesis'' None ''u1'')]\<rparr>"
  by (simp add: session_state_def create_assistant_def create_assistant_body_def
        except_Exception_def vapi_call_def initial_state_def vapi_ok_def assistant_request_def
        conversation_request_def NewSession_init_def)

lemma session_state_c1:
  "active_conversations session_state ''c1''
     = Some \<lparr>assistant_id = ''a1'', topic = ''Photosynthesis'', user_id = ''u1''\<rparr>"
  by (simp add: session_state_eq)

lemma deleted_state_eq:
  "deleted_state =
     \<lparr>active_conversations = Map.empty,
      vapi_log = vapi_log session_state @ [Conversation_delete ''c1'']\<rparr>"
  by (simp add: deleted_state_def session_state_eq delete_conversation_def
        delete_conversation_body_def except_Exception_def vapi_call_def dict_del_def data_get_def
        str_ne_def u1_delete_body_def vapi_ok_def)

lemma data_get_absent:
  "k \<notin> fst ` set kvs \<Longrightarrow> data_get (JObject kvs) k = Inr None"
  by (simp add: data_get_def map_of_eq_None_iff)

text \<open>What each handler can do to the registry.\<close>

lemma send_message_registry:
  "active_conversations (snd (send_message vapi str ci s)) = active_conversations s"
  by (simp add: send_message_def send_message_body_def except_Exception_def vapi_call_def
        split: option.splits sum.splits)

lemma get_user_conversations_state: "snd (get_user_conversations str uid s) = s"
  by (simp add: get_user_conversations_def except_Exception_def)

lemma delete_conversation_registry:
  "active_conversations (snd (delete_conversation vapi str cid request s)) = active_conversations s
   \<or> active_conversations (snd (delete_conversation vapi str cid request s))
       = (active_conversations s)(cid := None)"
  by (simp add: delete_conversation_def delete_conversation_body_def except_Exception_def
        vapi_call_def dict_del_def split: option.splits sum.splits)

lemma create_assistant_registry:
  "active_conversations (snd (create_assistant vapi str session s)) =
     (case vapi (vapi_log s) (assistant_request session) of
        Inl e \<Rightarrow> active_conversations s
      | Inr a \<Rightarrow>
          (case vapi (vapi_log s @ [assistant_request session]) (conversation_request a session) of
             Inl e \<Rightarrow> active_conversations s
           | Inr c \<Rightarrow> (active_conversations s)(obj_id c \<mapsto>
                \<lparr>assistant_id = obj_id a, topic = ns_topic session,
                 user_id = ns_user_id session\<rparr>)))"
  by (simp add: create_assistant_def create_assistant_body_def except_Exception_def vapi_call_def
        split: sum.splits)

lemma registry_inv_same:
  "active_conversations s' = active_conversations s \<Longrightarrow> registry_inv s \<Longrightarrow> registry_inv s'"
  by (simp add: registry_inv_def)

lemma registry_inv_removed:
  "active_conversations s' = (active_conversations s)(cid := None) \<Longrightarrow> registry_inv s
     \<Longrightarrow> registry_inv s'"
  by (simp add: registry_inv_def)

section \<open>The claims\<close>

subsection \<open>C1: unknown and foreign conversations in \<open>send_message\<close>\<close>

text \<open>
  C1 says that Send Message answers 404 for a conversation id that was never created and
  403 for one that belongs to another user. The body raises exactly these (lines 93 and
  97), but inside the \<open>try\<close> whose \<open>except Exception\<close> (line 118) catches them: the
  handler answers 500 in both cases, with the text of the caught exception in the detail.
  Evaluated on the empty registry and on the registry holding \<open>c1\<close> of user \<open>u1\<close>, for
  every platform and every \<open>str\<close>.
\<close>

theorem send_message_404_and_403_become_500:
  "fst (send_message vapi str (ConversationInput_init ''hi'' (Some ''c1'') ''u1'') initial_state)
     = Inl (HTTPException 500
         (''Failed to process message: '' @ str (HTTPException 404 ''Conversation not found'')))
   \<and> fst (send_message vapi str (ConversationInput_init ''hi'' (Some ''c1'') ''u2'') session_state)
     = Inl (HTTPException 500
         (''Failed to process message: ''
            @ str (HTTPException 403 ''Unauthorized access to conversation'')))"
  by (simp add: session_state_eq send_message_def send_message_body_def except_Exception_def
        ConversationInput_init_def initial_state_def)

subsection \<open>C2: non-empty owner and assistant id\<close>

text \<open>
  C2 as stated fails: \<open>create_assistant\<close> checks neither \<open>topic\<close> nor \<open>user_id\<close> for
  emptiness. A request with both empty is accepted and leaves a record with an empty
  owner in the registry, so the invariant does not hold afterwards.
\<close>

theorem create_assistant_accepts_empty_user_id:
  "fst (create_assistant vapi_ok str_stub (NewSession_init '''' None '''') initial_state)
     = Inr \<lparr>r_conversation_id = ''c1'', r_assistant_id = ''a1'', r_topic = ''''\<rparr>
   \<and> active_conversations
        (snd (create_assistant vapi_ok str_stub (NewSession_init '''' None '''') initial_state))
        ''c1''
     = Some \<lparr>assistant_id = ''a1'', topic = '''', user_id = ''''\<rparr>
   \<and> \<not> registry_inv
          (snd (create_assistant vapi_ok str_stub (NewSession_init '''' None '''') initial_state))"
  by (simp add: create_assistant_def create_assistant_body_def except_Exception_def vapi_call_def
        initial_state_def vapi_ok_def assistant_request_def conversation_request_def
        NewSession_init_def registry_inv_def)

text \<open>
  C2, amended: the invariant (every record of the registry has a non-empty owner and a
  non-empty assistant id) is preserved by \<open>send_message\<close>, \<open>get_user_conversations\<close> and
  \<open>delete_conversation\<close> on every request, and by \<open>create_assistant\<close> on every request
  whose \<open>user_id\<close> is non-empty when the assistant the platform returns has a non-empty
  id.
\<close>

theorem registry_inv_preserved:
  assumes "registry_inv s"
  shows "(ns_user_id session \<noteq> [] \<and>
          (\<forall>a. vapi (vapi_log s) (assistant_request session) = Inr a \<longrightarrow> obj_id a \<noteq> [])
            \<longrightarrow> registry_inv (snd (create_assistant vapi str session s)))
       \<and> registry_inv (snd (send_message vapi str ci s))
       \<and> registry_inv (snd (get_user_conversations str uid s))
       \<and> registry_inv (snd (delete_conversation vapi str cid request s))"
proof (intro conjI impI)
  assume h: "ns_user_id session \<noteq> [] \<and>
          (\<forall>a. vapi (vapi_log s) (assistant_request session) = Inr a \<longrightarrow> obj_id a \<noteq> [])"
  show "registry_inv (snd (create_assistant vapi str session s))"
    using assms h unfolding registry_inv_def create_assistant_registry
    by (auto split: sum.splits if_splits)
next
  show "registry_inv (snd (send_message vapi str ci s))"
    using send_message_registry assms by (rule registry_inv_same)
next
  show "registry_inv (snd (get_user_conversations str uid s))"
    using assms by (simp add: get_user_conversations_state)
next
  show "registry_inv (snd (delete_conversation vapi str cid request s))"
    using delete_conversation_registry [of vapi str cid request s] assms
    by (auto intro: registry_inv_same registry_inv_removed)
qed

theorem registry_inv_preserved_witness:
  "registry_inv initial_state
   \<and> ns_user_id (NewSession_init ''Photosynthesis'' None ''u1'') \<noteq> []
   \<and> vapi_ok (vapi_log initial_state)
        (assistant_request (NewSession_init ''Photosynthesis'' None ''u1''))
       = Inr \<lparr>obj_id = ''a1'', obj_content = ''''\<rparr>
   \<and> registry_inv
        (snd (create_assistant vapi_ok str_stub (NewSession_init ''Photosynthesis'' None ''u1'')
                initial_state))
   \<and> registry_inv
        (snd (send_message vapi_ok str_stub (ConversationInput_init ''hi'' (Some ''c1'') ''u1'')
                initial_state))
   \<and> registry_inv (snd (get_user_conversations str_stub ''u1'' initial_state))
   \<and> registry_inv
        (snd (delete_conversation vapi_ok str_stub ''c1'' (Some u1_delete_body) initial_state))"
proof -
  have i: "registry_inv initial_state"
    by (simp add: registry_inv_def initial_state_def)
  have u: "ns_user_id (NewSession_init ''Photosynthesis'' None ''u1'') \<noteq> []"
    by (simp add: NewSession_init_def)
  have a: "vapi_ok (vapi_log initial_state)
        (assistant_request (NewSession_init ''Photosynthesis'' None ''u1''))
       = Inr \<lparr>obj_id = ''a1'', obj_content = ''''\<rparr>"
    by (simp add: vapi_ok_def assistant_request_def)
  show ?thesis
    using i u a
      registry_inv_preserved [OF i, of "NewSession_init ''Photosynthesis'' None ''u1''" vapi_ok
        str_stub "ConversationInput_init ''hi'' (Some ''c1'') ''u1''" "''u1''" "''c1''"
        "Some u1_delete_body"]
    by simp
qed

subsection \<open>C3: the registry entry goes only after the platform deleted\<close>

text \<open>
  C3: in \<open>delete_conversation\<close> the registry entry is removed only after the platform's
  delete succeeded. If the platform's delete fails, the handler answers with an error
  and the registry is as before; whenever the handler answers with an error the
  registry is as before; and if the registry changed, the platform's delete was called
  and returned.
\<close>

theorem delete_conversation_upstream_first:
  "(vapi (vapi_log s) (Conversation_delete cid) = Inl e \<longrightarrow>
      (\<exists>d. fst (delete_conversation vapi str cid request s) = Inl (HTTPException 500 d))
      \<and> active_conversations (snd (delete_conversation vapi str cid request s))
          = active_conversations s)
   \<and> ((\<exists>x. fst (delete_conversation vapi str cid request s) = Inl x) \<longrightarrow>
      active_conversations (snd (delete_conversation vapi str cid request s))
        = active_conversations s)
   \<and> (active_conversations (snd (delete_conversation vapi str cid request s))
        \<noteq> active_conversations s \<longrightarrow>
      (\<exists>obj. vapi (vapi_log s) (Conversation_delete cid) = Inr obj)
      \<and> vapi_log (snd (delete_conversation vapi str cid request s))
          = vapi_log s @ [Conversation_delete cid])"
  by (auto simp: delete_conversation_def delete_conversation_body_def except_Exception_def
        vapi_call_def dict_del_def split: option.splits sum.splits)

theorem delete_conversation_upstream_first_witness:
  "vapi_down (vapi_log session_state) (Conversation_delete ''c1'')
       = Inl (PyException ''ConnectionError'')
   \<and> fst (delete_conversation vapi_down str_stub ''c1'' (Some u1_delete_body) session_state)
       = Inl (HTTPException 500 ''Failed to delete conversation: ConnectionError'')
   \<and> active_conversations
        (snd (delete_conversation vapi_down str_stub ''c1'' (Some u1_delete_body) session_state))
       = active_conversations session_state
   \<and> active_conversations session_state ''c1''
       = Some \<lparr>assistant_id = ''a1'', topic = ''Photosynthesis'', user_id = ''u1''\<rparr>
   \<and> active_conversations
        (snd (delete_conversation vapi_ok str_stub ''c1'' (Some u1_delete_body) session_state))
       \<noteq> active_conversations session_state
   \<and> vapi_ok (vapi_log session_state) (Conversation_delete ''c1'')
       = Inr \<lparr>obj_id = ''c1'', obj_content = ''''\<rparr>
   \<and> vapi_log
        (snd (delete_conversation vapi_ok str_stub ''c1'' (Some u1_delete_body) session_state))
       = vapi_log session_state @ [Conversation_delete ''c1'']"
proof -
  have d: "vapi_down (vapi_log session_state) (Conversation_delete ''c1'')
       = Inl (PyException ''ConnectionError'')"
    by (simp add: vapi_down_def)
  have r: "fst (delete_conversation vapi_down str_stub ''c1'' (Some u1_delete_body) session_state)
       = Inl (HTTPException 500 ''Failed to delete conversation: ConnectionError'')"
    by (simp add: session_state_eq delete_conversation_def delete_conversation_body_def
          except_Exception_def vapi_call_def data_get_def str_ne_def u1_delete_body_def
          vapi_down_def str_stub_def)
  have "active_conversations deleted_state ''c1'' \<noteq> active_conversations session_state ''c1''"
    by (simp add: deleted_state_eq session_state_c1)
  then have c: "active_conversations
        (snd (delete_conversation vapi_ok str_stub ''c1'' (Some u1_delete_body) session_state))
       \<noteq> active_conversations session_state"
    unfolding deleted_state_def by metis
  have k: "vapi_ok (vapi_log session_state) (Conversation_delete ''c1'')
       = Inr \<lparr>obj_id = ''c1'', obj_content = ''''\<rparr>"
    by (simp add: vapi_ok_def)
  show ?thesis
    using d r c k session_state_c1
      delete_conversation_upstream_first [of vapi_down session_state "''c1''"
        "PyException ''ConnectionError''" str_stub "Some u1_delete_body"]
      delete_conversation_upstream_first [of vapi_ok session_state "''c1''"
        "PyException ''ConnectionError''" str_stub "Some u1_delete_body"]
    by simp
qed

subsection \<open>C4: \<open>create_assistant\<close> is all or nothing\<close>

text \<open>
  C4: if the platform fails to create the assistant, or creates it and then fails to
  create the conversation, \<open>create_assistant\<close> answers 500 with the platform's error and
  the registry is as before: no session record becomes visible.
\<close>

theorem create_assistant_all_or_nothing:
  "vapi (vapi_log s) (assistant_request session) = Inl e
   \<or> (\<exists>a. vapi (vapi_log s) (assistant_request session) = Inr a
          \<and> vapi (vapi_log s @ [assistant_request session]) (conversation_request a session)
              = Inl e)
   \<Longrightarrow> fst (create_assistant vapi str session s)
         = Inl (HTTPException 500 (''Failed to create assistant: '' @ str e))
       \<and> active_conversations (snd (create_assistant vapi str session s))
           = active_conversations s"
  by (auto simp: create_assistant_def create_assistant_body_def except_Exception_def
        vapi_call_def)

theorem create_assistant_all_or_nothing_witness:
  "vapi_no_conversation (vapi_log session_state)
        (assistant_request (NewSession_init ''Optics'' None ''u2''))
       = Inr \<lparr>obj_id = ''a1'', obj_content = ''''\<rparr>
   \<and> vapi_no_conversation
        (vapi_log session_state @ [assistant_request (NewSession_init ''Optics'' None ''u2'')])
        (conversation_request \<lparr>obj_id = ''a1'', obj_content = ''''\<rparr>
           (NewSession_init ''Optics'' None ''u2''))
       = Inl (PyException ''ConnectionError'')
   \<and> fst (create_assistant vapi_no_conversation str_stub (NewSession_init ''Optics'' None ''u2'')
            session_state)
       = Inl (HTTPException 500 ''Failed to create assistant: ConnectionError'')
   \<and> active_conversations
        (snd (create_assistant vapi_no_conversation str_stub
                (NewSession_init ''Optics'' None ''u2'') session_state))
       = active_conversations session_state"
proof -
  have a: "vapi_no_conversation (vapi_log session_state)
        (assistant_request (NewSession_init ''Optics'' None ''u2''))
       = Inr \<lparr>obj_id = ''a1'', obj_content = ''''\<rparr>"
    by (simp add: vapi_no_conversation_def assistant_request_def)
  have c: "vapi_no_conversation
        (vapi_log session_state @ [assistant_request (NewSession_init ''Optics'' None ''u2'')])
        (conversation_request \<lparr>obj_id = ''a1'', obj_content = ''''\<rparr>
           (NewSession_init ''Optics'' None ''u2''))
       = Inl (PyException ''ConnectionError'')"
    by (simp add: vapi_no_conversation_def conversation_request_def)
  have "vapi_no_conversation (vapi_log session_state)
            (assistant_request (NewSession_init ''Optics'' None ''u2''))
          = Inl (PyException ''ConnectionError'')
        \<or> (\<exists>a. vapi_no_conversation (vapi_log session_state)
                  (assistant_request (NewSession_init ''Optics'' None ''u2'')) = Inr a
               \<and> vapi_no_conversation
                   (vapi_log session_state
                      @ [assistant_request (NewSession_init ''Optics'' None ''u2'')])
                   (conversation_request a (NewSession_init ''Optics'' None ''u2''))
                 = Inl (PyException ''ConnectionError''))"
    using a c by blast
  from create_assistant_all_or_nothing [OF this, of str_stub] a c show ?thesis
    by (simp add: str_stub_def)
qed

subsection \<open>C5: deleting an id that is not in the registry\<close>

text \<open>
  C5 says that deleting an id that is not in the registry fails with 404, and that
  after a successful delete the id is in no listing and a repeated delete fails with
  404. The body raises 404 (line 143) inside the \<open>try\<close> whose \<open>except Exception\<close>
  (line 156) catches it, so the handler answers 500 both for an id never created and
  for the repeated delete; the deleted id is absent from the owner's listing, as
  claimed.
\<close>

theorem delete_conversation_404_becomes_500:
  "fst (delete_conversation vapi str ''c1'' (Some u1_delete_body) initial_state)
     = Inl (HTTPException 500
         (''Failed to delete conversation: ''
            @ str (HTTPException 404 ''Conversation not found'')))
   \<and> fst (delete_conversation vapi_ok str_stub ''c1'' (Some u1_delete_body) session_state)
     = Inr \<lparr>d_status = ''success'', d_message = ''Conversation deleted''\<rparr>
   \<and> fst (get_user_conversations str ''u1'' deleted_state)
     = Inr \<lparr>conversations = Map.empty\<rparr>
   \<and> fst (delete_conversation vapi str ''c1'' (Some u1_delete_body) deleted_state)
     = Inl (HTTPException 500
         (''Failed to delete conversation: ''
            @ str (HTTPException 404 ''Conversation not found'')))"
  by (simp add: deleted_state_eq session_state_eq initial_state_def delete_conversation_def
        delete_conversation_body_def get_user_conversations_def user_conversations_def
        except_Exception_def vapi_call_def dict_del_def data_get_def str_ne_def
        u1_delete_body_def vapi_ok_def)

subsection \<open>C6: a missing conversation id in \<open>send_message\<close>\<close>

text \<open>
  C6 says that Send Message without a conversation id answers 400. The body raises 400
  (line 90) inside the \<open>try\<close> whose \<open>except Exception\<close> (line 118) catches it: for
  every message, user, state, platform and \<open>str\<close> the handler answers 500, and the
  state is as before.
\<close>

theorem send_message_400_becomes_500:
  "send_message vapi str (ConversationInput_init m None u) s
     = (Inl (HTTPException 500
          (''Failed to process message: ''
             @ str (HTTPException 400 ''Conversation ID is required''))), s)"
  by (simp add: send_message_def send_message_body_def except_Exception_def
        ConversationInput_init_def)

subsection \<open>C7: no call to the platform without authorization\<close>

text \<open>
  C7: when the conversation of a Send Message request is not in the registry, or is
  there with another owner, the handler fails and leaves the state as it was: the log
  of requests sent to the platform is unchanged, so neither message call was made.
\<close>

theorem send_message_unauthorized_no_upstream_call:
  "ci_conversation_id ci = Some cid \<Longrightarrow>
   active_conversations s cid = None
     \<or> (\<exists>d. active_conversations s cid = Some d \<and> user_id d \<noteq> ci_user_id ci) \<Longrightarrow>
   vapi_log (snd (send_message vapi str ci s)) = vapi_log s
   \<and> snd (send_message vapi str ci s) = s
   \<and> (\<exists>e. fst (send_message vapi str ci s) = Inl e)"
  by (auto simp: send_message_def send_message_body_def except_Exception_def)

theorem send_message_unauthorized_no_upstream_call_witness:
  "ci_conversation_id (ConversationInput_init ''hi'' (Some ''c1'') ''u2'') = Some ''c1''
   \<and> active_conversations session_state ''c1''
       = Some \<lparr>assistant_id = ''a1'', topic = ''Photosynthesis'', user_id = ''u1''\<rparr>
   \<and> user_id \<lparr>assistant_id = ''a1'', topic = ''Photosynthesis'', user_id = ''u1''\<rparr>
       \<noteq> ci_user_id (ConversationInput_init ''hi'' (Some ''c1'') ''u2'')
   \<and> vapi_log
        (snd (send_message vapi_ok str_stub (ConversationInput_init ''hi'' (Some ''c1'') ''u2'')
                session_state))
       = vapi_log session_state
   \<and> snd (send_message vapi_ok str_stub (ConversationInput_init ''hi'' (Some ''c1'') ''u2'')
            session_state)
       = session_state
   \<and> (\<exists>e. fst (send_message vapi_ok str_stub
                   (ConversationInput_init ''hi'' (Some ''c1'') ''u2'') session_state)
             = Inl e)"
proof -
  have i: "ci_conversation_id (ConversationInput_init ''hi'' (Some ''c1'') ''u2'') = Some ''c1''"
    by (simp add: ConversationInput_init_def)
  have n: "user_id \<lparr>assistant_id = ''a1'', topic = ''Photosynthesis'', user_id = ''u1''\<rparr>
       \<noteq> ci_user_id (ConversationInput_init ''hi'' (Some ''c1'') ''u2'')"
    by (simp add: ConversationInput_init_def)
  have "active_conversations session_state ''c1'' = None
        \<or> (\<exists>d. active_conversations session_state ''c1'' = Some d
               \<and> user_id d \<noteq> ci_user_id (ConversationInput_init ''hi'' (Some ''c1'') ''u2''))"
    using session_state_c1 n by simp
  from send_message_unauthorized_no_upstream_call [OF i this, of vapi_ok str_stub]
    i session_state_c1 n
  show ?thesis
    by simp
qed

subsection \<open>C8: a created conversation is listed for its owner only\<close>

text \<open>
  C8: when \<open>create_assistant\<close> succeeds, the conversation id it returns is a key of the
  listing of the creating user in the state it leaves, and of no other user's listing.
\<close>

theorem created_conversation_listed_for_owner_only:
  "fst (create_assistant vapi str session s) = Inr r \<Longrightarrow>
   (\<exists>resp. fst (get_user_conversations str (ns_user_id session)
                  (snd (create_assistant vapi str session s))) = Inr resp
           \<and> conversations resp (r_conversation_id r) \<noteq> None)
   \<and> (\<forall>other. other \<noteq> ns_user_id session \<longrightarrow>
        (\<exists>resp. fst (get_user_conversations str other
                       (snd (create_assistant vapi str session s))) = Inr resp
                \<and> conversations resp (r_conversation_id r) = None))"
  by (auto simp: create_assistant_def create_assistant_body_def get_user_conversations_def
        user_conversations_def except_Exception_def vapi_call_def split: sum.splits)

theorem created_conversation_listed_for_owner_only_witness:
  "fst (create_assistant vapi_ok str_stub (NewSession_init ''Photosynthesis'' None ''u1'')
          initial_state)
     = Inr \<lparr>r_conversation_id = ''c1'', r_assistant_id = ''a1'', r_topic = ''Photosynthesis''\<rparr>
   \<and> ''u2'' \<noteq> ns_user_id (NewSession_init ''Photosynthesis'' None ''u1'')
   \<and> (\<exists>resp. fst (get_user_conversations str_stub ''u1'' session_state) = Inr resp
           \<and> conversations resp ''c1'' \<noteq> None)
   \<and> (\<exists>resp. fst (get_user_conversations str_stub ''u2'' session_state) = Inr resp
           \<and> conversations resp ''c1'' = None)"
proof -
  have c: "fst (create_assistant vapi_ok str_stub (NewSession_init ''Photosynthesis'' None ''u1'')
          initial_state)
     = Inr \<lparr>r_conversation_id = ''c1'', r_assistant_id = ''a1'', r_topic = ''Photosynthesis''\<rparr>"
    by (simp add: create_assistant_def create_assistant_body_def except_Exception_def
          vapi_call_def initial_state_def vapi_ok_def assistant_request_def
          conversation_request_def NewSession_init_def)
  have n: "''u2'' \<noteq> ns_user_id (NewSession_init ''Photosynthesis'' None ''u1'')"
    by (simp add: NewSession_init_def)
  have u: "ns_user_id (NewSession_init ''Photosynthesis'' None ''u1'') = ''u1''"
    by (simp add: NewSession_init_def)
  from created_conversation_listed_for_owner_only [OF c] c n u show ?thesis
    unfolding session_state_def [symmetric] by simp
qed

subsection \<open>C9: a delete request without \<open>user_id\<close>\<close>

text \<open>
  C9: when the body of a delete request is a JSON object without the key \<open>user_id\<close>,
  the handler fails and leaves the state as it was: the registry entry stays and the
  platform's delete is not called.
\<close>

theorem delete_conversation_without_user_id_refused:
  "''user_id'' \<notin> fst ` set kvs \<Longrightarrow>
   snd (delete_conversation vapi str cid (Some (JObject kvs)) s) = s
   \<and> active_conversations (snd (delete_conversation vapi str cid (Some (JObject kvs)) s))
       = active_conversations s
   \<and> vapi_log (snd (delete_conversation vapi str cid (Some (JObject kvs)) s)) = vapi_log s
   \<and> (\<exists>e. fst (delete_conversation vapi str cid (Some (JObject kvs)) s) = Inl e)"
  by (simp add: delete_conversation_def delete_conversation_body_def except_Exception_def
        data_get_absent str_ne_def split: option.splits)

theorem delete_conversation_without_user_id_refused_witness:
  "''user_id'' \<notin> fst ` set [(''reason'', JString ''done'')]
   \<and> active_conversations session_state ''c1''
       = Some \<lparr>assistant_id = ''a1'', topic = ''Photosynthesis'', user_id = ''u1''\<rparr>
   \<and> snd (delete_conversation vapi_ok str_stub ''c1''
            (Some (JObject [(''reason'', JString ''done'')])) session_state)
       = session_state
   \<and> (\<exists>e. fst (delete_conversation vapi_ok str_stub ''c1''
                 (Some (JObject [(''reason'', JString ''done'')])) session_state) = Inl e)"
proof -
  have h: "''user_id'' \<notin> fst ` set [(''reason'', JString ''done'')]"
    by simp
  from delete_conversation_without_user_id_refused [OF h, of vapi_ok str_stub "''c1''" session_state]
    h session_state_c1
  show ?thesis
    by simp
qed

subsection \<open>C10: the default difficulty level\<close>

text \<open>
  C10: for a request without \<open>difficulty_level\<close>, the first request \<open>create_assistant\<close>
  sends to the platform creates an assistant whose instructions are the template with
  the topic and the level \<open>beginner\<close>.
\<close>

theorem create_assistant_default_difficulty:
  "take (Suc (length (vapi_log s)))
       (vapi_log (snd (create_assistant vapi str (NewSession_init t None u) s)))
     = vapi_log s @ [Assistant_create (''Feynman Learning Assistant - '' @ t) assistant_model
          (instructions_head @ t @ '' at a '' @ ''beginner'' @ instructions_tail)]"
  by (simp add: create_assistant_def create_assistant_body_def except_Exception_def vapi_call_def
        assistant_request_def assistant_name_def assistant_instructions_def NewSession_init_def
        split: sum.splits)

end
